theory Spec2Isabelle
  imports Main "HOL-Library.Sublist"
begin

section \<open>Identifiers and the plan state (build.h)\<close>

text \<open>
  Nodes and edges live in arenas; a pointer \<^verbatim>\<open>Node*\<close> or \<^verbatim>\<open>Edge*\<close> of the source is
  the index of the object.
\<close>

type_synonym NodeId = nat
type_synonym EdgeId = nat

text \<open>\<^verbatim>\<open>enum Want\<close> of \<^verbatim>\<open>struct Plan\<close> (build.h).\<close>

datatype Want = kWantNothing | kWantToStart | kWantToFinish

text \<open>
  The data members of \<^verbatim>\<open>struct Plan\<close> (build.h): the map \<^verbatim>\<open>want_\<close>, the set
  \<^verbatim>\<open>ready_\<close> (a list, so that the order in which edges are popped is part of the
  state), and the two counters \<^verbatim>\<open>command_edges_\<close> and \<^verbatim>\<open>wanted_edges_\<close>. A name
  cannot end with an underscore here, so the trailing underscore of each member is
  dropped. The pointer \<^verbatim>\<open>builder_\<close> is not kept. \<^verbatim>\<open>more_to_do\<close> only compares the
  counters, of type \<^verbatim>\<open>int\<close>, with zero; they are integers here.
\<close>

record Plan =
  want :: "EdgeId \<rightharpoonup> Want"
  ready :: "EdgeId list"
  command_edges :: int
  wanted_edges :: int

text \<open>
  \<^verbatim>\<open>bool more_to_do() const { return wanted_edges_ > 0 && command_edges_ > 0; }\<close>
\<close>

definition more_to_do :: "Plan \<Rightarrow> bool" where
  "more_to_do p \<longleftrightarrow> wanted_edges p > 0 \<and> command_edges p > 0"

section \<open>ElideMiddle (util.cc)\<close>

text \<open>
  \<^verbatim>\<open>std::string ElideMiddle(std::string_view const str, size_t const width)\<close>.
  The \<^verbatim>\<open>switch\<close> returns for the widths 0 to 3, so \<^verbatim>\<open>width - kMargin\<close> is computed
  only for \<open>width \<ge> 4\<close> and \<^verbatim>\<open>str.size() - elide_size\<close> only for
  \<open>str.size() > width\<close>: neither unsigned subtraction wraps, and \<open>nat\<close> is exact here.
  \<^verbatim>\<open>str.substr(pos, n)\<close> with \<open>pos \<le> size\<close> is \<open>take n (drop pos str)\<close>.
\<close>

definition ElideMiddle :: "string \<Rightarrow> nat \<Rightarrow> string" where
  "ElideMiddle str width =
     (if width = 0 then ''''
      else if width = 1 then ''.''
      else if width = 2 then ''..''
      else if width = 3 then ''...''
      else if length str > width then
        (let elide_size = (width - 3) div 2
         in take elide_size str @ ''...'' @
            take elide_size (drop (length str - elide_size) str))
      else str)"

section \<open>Time stamps (timestamp.h)\<close>

text \<open>
  \<^verbatim>\<open>using TimeStamp = std::filesystem::file_time_type\<close>: a count of clock ticks. The
  builder only compares time stamps; \<^verbatim>\<open>TimeStamp::min()\<close> is what \<^verbatim>\<open>Stat\<close> answers for a
  file that does not exist (disk_interface_test.cc). A time stamp is the integer count;
  \<open>TimeStamp_min\<close> is the least count of a 64-bit representation.
\<close>

type_synonym TimeStamp = int

definition TimeStamp_min :: TimeStamp where
  "TimeStamp_min = - (2 ^ 63)"

section \<open>The graph\<close>

text \<open>
  Modelled from the spec: \<^verbatim>\<open>Node\<close>, \<^verbatim>\<open>Edge\<close> and \<^verbatim>\<open>State\<close> (graph.h and state.h are
  not among the sources). Section 3 of the specification: a node is identified by a
  canonical path and has a modification time cached for the invocation (for an output,
  the time before its command ran); an edge has an ordered list of outputs. The other
  attributes of section 3 are not read by the functions below. The state owns both
  arenas; every identifier denotes an object, as every pointer of the source does.
\<close>

record Node =
  path :: string
  node_mtime :: TimeStamp

record Edge =
  outputs :: "NodeId list"

record State =
  nodes :: "NodeId \<Rightarrow> Node"
  edges :: "EdgeId \<Rightarrow> Edge"

section \<open>The disk interface\<close>

text \<open>
  Modelled from the spec: the filesystem interface (disk_interface.h and
  disk_interface.cc are not among the sources), as far as cleanup uses it. Section 6:
  \<^verbatim>\<open>stat(path) -> mtime | missing | error(msg)\<close> and
  \<^verbatim>\<open>remove_file(path) -> 0 (ok) | 1 (already absent) | -1 (error)\<close>; section 9: time
  stamps are totally ordered, with a designated minimum for a missing file and a
  maximum for an error. A disk is the time stamp that \<^verbatim>\<open>stat\<close> answers for every path,
  with the set of the paths whose removal fails.
\<close>

record Disk =
  mtime_of :: "string \<Rightarrow> TimeStamp"
  refused :: "string set"

definition Stat :: "Disk \<Rightarrow> string \<Rightarrow> TimeStamp" where
  "Stat d p = mtime_of d p"

definition RemoveFile :: "string \<Rightarrow> Disk \<Rightarrow> int \<times> Disk" where
  "RemoveFile p d =
     (if mtime_of d p = TimeStamp_min then (1, d)
      else if p \<in> refused d then (- 1, d)
      else (0, d\<lparr>mtime_of := (mtime_of d)(p := TimeStamp_min)\<rparr>))"

section \<open>The command runner (build.h)\<close>





section \<open>The builder\<close>


text \<open>
  Modelled from the spec: \<^verbatim>\<open>Builder::Cleanup\<close> (build.cc is not among the sources).
  Section 5, Cancellation: the builder "calls \<^verbatim>\<open>GetActiveEdges\<close> and, for each, stats
  each output and deletes those whose mtime advanced past pre-run (touched outputs)
  while keeping untouched ones". \<open>remove_touched\<close> is the loop over the outputs;
  the pre-run time of an output is the time cached in its node; what \<^verbatim>\<open>remove_file\<close>
  returns is not looked at. The runner then drops the active commands (\<^verbatim>\<open>Abort\<close>,
  build.h): BuildTest.InterruptCleanup (build_test.cc) starts a second build on the
  same runner after the cleanup.
\<close>

fun remove_touched :: "State \<Rightarrow> NodeId list \<Rightarrow> Disk \<Rightarrow> Disk" where
  "remove_touched st [] d = d"
| "remove_touched st (n # ns) d =
     remove_touched st ns
       (if node_mtime (nodes st n) < Stat d (path (nodes st n))
        then snd (RemoveFile (path (nodes st n)) d) else d)"












section \<open>RunBuild, RebuildManifest and the end of real_main (ninja.cc)\<close>







section \<open>Scenarios\<close>








section \<open>Properties of ElideMiddle\<close>

lemma ElideMiddle_small: "w \<le> 3 \<Longrightarrow> ElideMiddle s w = replicate w (CHR ''.'')"
proof -
  assume "w \<le> 3"
  then consider "w = 0" | "w = 1" | "w = 2" | "w = 3" by linarith
  then show ?thesis
    by cases (simp_all add: ElideMiddle_def numeral_2_eq_2 numeral_3_eq_3)
qed

lemma ElideMiddle_fits: "4 \<le> w \<Longrightarrow> length s \<le> w \<Longrightarrow> ElideMiddle s w = s"
  by (simp add: ElideMiddle_def)

lemma ElideMiddle_long:
  assumes "4 \<le> w" and "w < length s"
  shows "ElideMiddle s w =
           take ((w - 3) div 2) s @ ''...'' @ drop (length s - (w - 3) div 2) s"
  using assms by (simp add: ElideMiddle_def Let_def)

lemma ElideMiddle_long_length:
  assumes "4 \<le> w" and "w < length s"
  shows "length (ElideMiddle s w) = 2 * ((w - 3) div 2) + 3"
proof -
  have "(w - 3) div 2 \<le> length s" using assms by linarith
  then show ?thesis using assms by (simp add: ElideMiddle_long min_def)
qed

text \<open>
  C10. For every string \<open>s\<close> and width \<open>w\<close>: if \<open>w \<le> 3\<close> the result of
  \<open>ElideMiddle s w\<close> is exactly \<open>w\<close> dots, whatever \<open>s\<close> is; if \<open>w \<ge> 4\<close> and \<open>s\<close>
  has at most \<open>w\<close> characters the result is \<open>s\<close>; and if \<open>w \<ge> 4\<close> and \<open>s\<close> is longer
  than \<open>w\<close> the result is the first \<open>(w - 3) div 2\<close> characters of \<open>s\<close>, three dots,
  and the last \<open>(w - 3) div 2\<close> characters of \<open>s\<close>, of length at most \<open>w\<close>.
\<close>

theorem ElideMiddle_cases:
  "(w \<le> 3 \<longrightarrow> ElideMiddle s w = replicate w (CHR ''.'')) \<and>
   (4 \<le> w \<and> length s \<le> w \<longrightarrow> ElideMiddle s w = s) \<and>
   (4 \<le> w \<and> w < length s \<longrightarrow>
      ElideMiddle s w =
        take ((w - 3) div 2) s @ ''...'' @ drop (length s - (w - 3) div 2) s \<and>
      length (ElideMiddle s w) \<le> w)"
proof (intro conjI impI)
  assume "w \<le> 3" then show "ElideMiddle s w = replicate w (CHR ''.'')"
    by (rule ElideMiddle_small)
next
  assume "4 \<le> w \<and> length s \<le> w" then show "ElideMiddle s w = s"
    by (simp add: ElideMiddle_fits)
next
  assume "4 \<le> w \<and> w < length s"
  then show "ElideMiddle s w =
      take ((w - 3) div 2) s @ ''...'' @ drop (length s - (w - 3) div 2) s"
    by (simp add: ElideMiddle_long)
next
  assume h: "4 \<le> w \<and> w < length s"
  then have "length (ElideMiddle s w) = 2 * ((w - 3) div 2) + 3"
    by (simp add: ElideMiddle_long_length)
  with h show "length (ElideMiddle s w) \<le> w" by linarith
qed

theorem ElideMiddle_cases_witness:
  "ElideMiddle ''01234567890123456789'' 2 = ''..'' \<and>
   ElideMiddle ''ab'' 3 = ''...'' \<and>
   ElideMiddle ''01234567890123456789'' 20 = ''01234567890123456789'' \<and>
   ElideMiddle ''01234567890123456789'' 10 = ''012...789'' \<and>
   length (ElideMiddle ''01234567890123456789'' 10) \<le> 10"
proof -
  have a: "ElideMiddle ''01234567890123456789'' 2 = replicate 2 (CHR ''.'')"
    using ElideMiddle_cases [of 2 "''01234567890123456789''"] by simp
  have b: "ElideMiddle ''ab'' 3 = replicate 3 (CHR ''.'')"
    using ElideMiddle_cases [of 3 "''ab''"] by simp
  have c: "ElideMiddle ''01234567890123456789'' 20 = ''01234567890123456789''"
    using ElideMiddle_cases [of 20 "''01234567890123456789''"] by simp
  have d: "ElideMiddle ''01234567890123456789'' 10 =
             take ((10 - 3) div 2) ''01234567890123456789'' @ ''...'' @
             drop (length ''01234567890123456789'' - (10 - 3) div 2) ''01234567890123456789''
           \<and> length (ElideMiddle ''01234567890123456789'' 10) \<le> 10"
    using ElideMiddle_cases [of 10 "''01234567890123456789''"] by simp
  have e: "take ((10 - 3) div 2) ''01234567890123456789'' @ ''...'' @
           drop (length ''01234567890123456789'' - (10 - 3) div 2) ''01234567890123456789''
           = ''012...789''"
    by code_simp
  have r2: "replicate 2 (CHR ''.'') = ''..''" by code_simp
  have r3: "replicate 3 (CHR ''.'') = ''...''" by code_simp
  from a r2 have a': "ElideMiddle ''01234567890123456789'' 2 = ''..''"
    by (simp only:)
  from b r3 have b': "ElideMiddle ''ab'' 3 = ''...''"
    by (simp only:)
  from d e have d': "ElideMiddle ''01234567890123456789'' 10 = ''012...789''"
    by (simp only:)
  from d have d'': "length (ElideMiddle ''01234567890123456789'' 10) \<le> 10"
    by (rule conjunct2)
  show ?thesis by (intro conjI) (rule a' b' c d' d'')+
qed

section \<open>Properties of the plan counters\<close>

text \<open>
  C9 as stated (\<open>more_to_do\<close> is true if and only if \<open>wanted_edges > 0\<close>) fails on a
  plan that wants one edge without a command: one wanted edge, no command edge.
\<close>

theorem more_to_do_wanted_only_counterexample:
  "\<not> (more_to_do \<lparr>want = Map.empty(0 \<mapsto> kWantToStart), ready = [0],
                    command_edges = 0, wanted_edges = 1\<rparr>
       \<longleftrightarrow> wanted_edges \<lparr>want = Map.empty(0 \<mapsto> kWantToStart), ready = [0],
                    command_edges = 0, wanted_edges = 1\<rparr> > 0)"
  by (simp add: more_to_do_def)

text \<open>
  C9, amended. For every plan state, \<open>more_to_do\<close> is true if and only if both
  \<open>wanted_edges > 0\<close> and \<open>command_edges > 0\<close>; so it is false as soon as the count
  of wanted edges reaches zero, and true only while wanted edges remain.
\<close>

theorem more_to_do_iff:
  "(more_to_do p \<longleftrightarrow> wanted_edges p > 0 \<and> command_edges p > 0) \<and>
   (wanted_edges p \<le> 0 \<longrightarrow> \<not> more_to_do p) \<and>
   (more_to_do p \<longrightarrow> wanted_edges p > 0)"
  by (simp add: more_to_do_def)

theorem more_to_do_iff_witness:
  "more_to_do \<lparr>want = Map.empty(0 \<mapsto> kWantToStart), ready = [0],
               command_edges = 1, wanted_edges = 1\<rparr> \<and>
   \<not> more_to_do \<lparr>want = Map.empty, ready = [], command_edges = 1, wanted_edges = 0\<rparr>"
  using more_to_do_iff [of "\<lparr>want = Map.empty(0 \<mapsto> kWantToStart), ready = [0],
               command_edges = 1, wanted_edges = 1\<rparr>"]
        more_to_do_iff [of "\<lparr>want = Map.empty, ready = [], command_edges = 1, wanted_edges = 0\<rparr>"]
  by simp

section \<open>Properties of the build loop, of its callers and of Cleanup\<close>






lemma remove_touched_refused [simp]: "refused (remove_touched st ns d) = refused d"
  by (induction ns arbitrary: d) (auto simp: RemoveFile_def)










end
